theory Spec2Isabelle
  imports Complex_Main "HOL-Library.Char_ord" "HOL-Library.List_Lexorder"
begin

chapter \<open>ARIA runtime: session FSM, circuit breaker, router, sandbox, audit store, kernel\<close>

text \<open>
  A shallow embedding of the core of the ARIA agent runtime. Every Python function that
  the properties below talk about is a HOL function of the same name; mutation is explicit
  state passing, a raised exception is the left injection of a sum. Human-readable
  exception messages (f-strings) are not part of the model: an exception value is its
  class together with the constructor arguments that the code reads back;
  \<open>ModelProviderExhaustedError\<close> carries the last error, which the code interpolates
  into its message, and the attribute \<open>attempts\<close>. Floats are modelled as reals.
\<close>

section \<open>Exceptions (aria/models/errors.py)\<close>

datatype exn =
    ARIAError
  | ValidationError
  | ToolInputValidationError
  | ToolOutputValidationError
  | ModelOutputValidationError
  | ManifestValidationError
  | SecurityError
  | PathTraversalError
  | PermissionDeniedError
  | PromptInjectionWarning
  | UnknownToolError
  | SecretNotFoundError
  | SecretInvalidError
  | SandboxError
  | ToolTimeoutError
  | ToolSandboxError
  | ProviderError
  | ModelProviderError
  | ModelRateLimitError
  | ModelTimeoutError
  | ModelProviderExhaustedError "exn option" nat
  | CircuitBreakerOpenError string
  | StateMachineError
  | InvalidStateTransitionError string string
  | LimitError
  | StepLimitExceededError
  | CostBudgetExceededError
  | StorageError
  | AuditWriteFailureError
  | MemoryCorruptionError
  | ConfigError
  | ValueError
  | OtherException string

text \<open>\<open>class_name e\<close> is \<open>type(e).__name__\<close>; \<open>mro e\<close> lists the class of \<open>e\<close> and its
  ancestors up to Python's built-in \<open>Exception\<close>, so that \<open>except C\<close> catches \<open>e\<close> exactly
  when the name of \<open>C\<close> is in \<open>mro e\<close>.\<close>

fun class_name :: "exn \<Rightarrow> string" where
  "class_name ARIAError = ''ARIAError''"
| "class_name ValidationError = ''ValidationError''"
| "class_name ToolInputValidationError = ''ToolInputValidationError''"
| "class_name ToolOutputValidationError = ''ToolOutputValidationError''"
| "class_name ModelOutputValidationError = ''ModelOutputValidationError''"
| "class_name ManifestValidationError = ''ManifestValidationError''"
| "class_name SecurityError = ''SecurityError''"
| "class_name PathTraversalError = ''PathTraversalError''"
| "class_name PermissionDeniedError = ''PermissionDeniedError''"
| "class_name PromptInjectionWarning = ''PromptInjectionWarning''"
| "class_name UnknownToolError = ''UnknownToolError''"
| "class_name SecretNotFoundError = ''SecretNotFoundError''"
| "class_name SecretInvalidError = ''SecretInvalidError''"
| "class_name SandboxError = ''SandboxError''"
| "class_name ToolTimeoutError = ''ToolTimeoutError''"
| "class_name ToolSandboxError = ''ToolSandboxError''"
| "class_name ProviderError = ''ProviderError''"
| "class_name ModelProviderError = ''ModelProviderError''"
| "class_name ModelRateLimitError = ''ModelRateLimitError''"
| "class_name ModelTimeoutError = ''ModelTimeoutError''"
| "class_name (ModelProviderExhaustedError _ _) = ''ModelProviderExhaustedError''"
| "class_name (CircuitBreakerOpenError _) = ''CircuitBreakerOpenError''"
| "class_name StateMachineError = ''StateMachineError''"
| "class_name (InvalidStateTransitionError _ _) = ''InvalidStateTransitionError''"
| "class_name LimitError = ''LimitError''"
| "class_name StepLimitExceededError = ''StepLimitExceededError''"
| "class_name CostBudgetExceededError = ''CostBudgetExceededError''"
| "class_name StorageError = ''StorageError''"
| "class_name AuditWriteFailureError = ''AuditWriteFailureError''"
| "class_name MemoryCorruptionError = ''MemoryCorruptionError''"
| "class_name ConfigError = ''ConfigError''"
| "class_name ValueError = ''ValueError''"
| "class_name (OtherException n) = n"

definition superclasses :: "exn \<Rightarrow> string list" where
  "superclasses e =
     (if e \<in> {ToolInputValidationError, ToolOutputValidationError,
               ModelOutputValidationError, ManifestValidationError}
        then [''ValidationError'', ''ARIAError'']
      else if e \<in> {PathTraversalError, PermissionDeniedError, UnknownToolError}
        then [''SecurityError'', ''ARIAError'']
      else if e \<in> {ToolTimeoutError, ToolSandboxError}
        then [''SandboxError'', ''ARIAError'']
      else if class_name e \<in> {''ModelProviderError'', ''ModelRateLimitError'', ''ModelTimeoutError'',
               ''ModelProviderExhaustedError'', ''CircuitBreakerOpenError''}
        then [''ProviderError'', ''ARIAError'']
      else if class_name e = ''InvalidStateTransitionError''
        then [''StateMachineError'', ''ARIAError'']
      else if e \<in> {StepLimitExceededError, CostBudgetExceededError}
        then [''LimitError'', ''ARIAError'']
      else if e \<in> {AuditWriteFailureError, MemoryCorruptionError}
        then [''StorageError'', ''ARIAError'']
      else if e \<in> {ValidationError, SecurityError, PromptInjectionWarning, SecretNotFoundError,
               SecretInvalidError, SandboxError, ProviderError, StateMachineError, LimitError,
               StorageError, ConfigError}
        then [''ARIAError'']
      else [])"

definition mro :: "exn \<Rightarrow> string list" where
  "mro e = class_name e # superclasses e @ [''Exception'']"

definition isinstance :: "exn \<Rightarrow> string list \<Rightarrow> bool" where
  "isinstance e classes = list_ex (\<lambda>c. c \<in> set (mro e)) classes"

section \<open>Session FSM (aria/kernel/fsm.py)\<close>

datatype SessionStatus = IDLE | RUNNING | WAITING | DONE | FAILED | CANCELLED

fun status_value :: "SessionStatus \<Rightarrow> string" where
  "status_value IDLE = ''IDLE''"
| "status_value RUNNING = ''RUNNING''"
| "status_value WAITING = ''WAITING''"
| "status_value DONE = ''DONE''"
| "status_value FAILED = ''FAILED''"
| "status_value CANCELLED = ''CANCELLED''"

text \<open>The table \<open>_VALID\<close>: the set of targets allowed from each state.\<close>

fun VALID :: "SessionStatus \<Rightarrow> SessionStatus list" where
  "VALID IDLE = [RUNNING, CANCELLED]"
| "VALID RUNNING = [WAITING, DONE, FAILED, CANCELLED]"
| "VALID WAITING = [RUNNING, FAILED, CANCELLED]"
| "VALID DONE = []"
| "VALID FAILED = []"
| "VALID CANCELLED = []"

record SessionFSM =
  fsm_state :: SessionStatus
  fsm_session_id :: string
  fsm_history :: "(SessionStatus \<times> SessionStatus) list"

definition new_fsm :: "string \<Rightarrow> SessionFSM" where
  "new_fsm session_id =
     \<lparr>fsm_state = IDLE, fsm_session_id = session_id, fsm_history = []\<rparr>"

definition is_terminal :: "SessionFSM \<Rightarrow> bool" where
  "is_terminal f = (fsm_state f \<in> {DONE, FAILED, CANCELLED})"

text \<open>\<open>transition\<close> either raises, leaving the object as it was, or records the pair
  in the history and moves to the target.\<close>

definition transition :: "SessionFSM \<Rightarrow> SessionStatus \<Rightarrow> (exn + unit) \<times> SessionFSM" where
  "transition f to_state =
     (if to_state \<notin> set (VALID (fsm_state f))
      then (Inl (InvalidStateTransitionError (status_value (fsm_state f)) (status_value to_state)), f)
      else (Inr (), f\<lparr>fsm_history := fsm_history f @ [(fsm_state f, to_state)],
                       fsm_state := to_state\<rparr>))"

text \<open>The transition table as the specification lists it, pair by pair.\<close>

definition spec_table :: "(SessionStatus \<times> SessionStatus) list" where
  "spec_table =
     [(IDLE, RUNNING), (IDLE, CANCELLED),
      (RUNNING, WAITING), (RUNNING, DONE), (RUNNING, FAILED), (RUNNING, CANCELLED),
      (WAITING, RUNNING), (WAITING, FAILED), (WAITING, CANCELLED)]"

section \<open>Circuit breaker (aria/models/providers/circuit_breaker.py)\<close>

datatype CBState = CLOSED | OPEN | HALF_OPEN

record CircuitBreaker =
  cb_provider :: string
  cb_threshold :: int
  cb_window :: real
  cb_recovery :: real
  cb_state :: CBState
  cb_failures :: "real list"
  cb_opened_at :: "real option"

definition new_breaker :: "string \<Rightarrow> int \<Rightarrow> real \<Rightarrow> real \<Rightarrow> CircuitBreaker" where
  "new_breaker provider failure_threshold window_seconds recovery_seconds =
     \<lparr>cb_provider = provider, cb_threshold = failure_threshold, cb_window = window_seconds,
      cb_recovery = recovery_seconds, cb_state = CLOSED, cb_failures = [],
      cb_opened_at = None\<rparr>"

text \<open>The defaults of the constructor: threshold 3, window 60 s, recovery 120 s.\<close>

definition default_breaker :: "string \<Rightarrow> CircuitBreaker" where
  "default_breaker provider = new_breaker provider 3 60 120"

text \<open>The property \<open>state\<close>: querying it may move an OPEN breaker to HALF_OPEN. The
  argument \<open>now\<close> is the reading of \<open>time.monotonic()\<close> at the call.\<close>

definition state :: "CircuitBreaker \<Rightarrow> real \<Rightarrow> CBState \<times> CircuitBreaker" where
  "state b now =
     (let b' = (case cb_opened_at b of
                  Some opened \<Rightarrow>
                    if cb_state b = OPEN \<and> now - opened \<ge> cb_recovery b
                    then b\<lparr>cb_state := HALF_OPEN\<rparr> else b
                | None \<Rightarrow> b)
      in (cb_state b', b'))"

definition allow_request :: "CircuitBreaker \<Rightarrow> real \<Rightarrow> (exn + unit) \<times> CircuitBreaker" where
  "allow_request b now =
     (case state b now of
        (st, b') \<Rightarrow> if st = OPEN then (Inl (CircuitBreakerOpenError (cb_provider b')), b')
                    else (Inr (), b'))"

definition record_success :: "CircuitBreaker \<Rightarrow> CircuitBreaker" where
  "record_success b =
     (let b1 = b\<lparr>cb_failures := []\<rparr>
      in if cb_state b1 = HALF_OPEN then b1\<lparr>cb_state := CLOSED, cb_opened_at := None\<rparr> else b1)"

definition record_failure :: "CircuitBreaker \<Rightarrow> real \<Rightarrow> CircuitBreaker" where
  "record_failure b now =
     (if cb_state b = HALF_OPEN then b\<lparr>cb_opened_at := Some now, cb_state := OPEN\<rparr>
      else
        let fs = filter (\<lambda>t. now - t < cb_window b) (cb_failures b) @ [now]
        in if int (length fs) \<ge> cb_threshold b
           then b\<lparr>cb_failures := [], cb_opened_at := Some now, cb_state := OPEN\<rparr>
           else b\<lparr>cb_failures := fs\<rparr>)"

definition reset :: "CircuitBreaker \<Rightarrow> CircuitBreaker" where
  "reset b = b\<lparr>cb_state := CLOSED, cb_failures := [], cb_opened_at := None\<rparr>"

section \<open>Model router (aria/models/router.py)\<close>

definition RETRYABLE :: "string list" where
  "RETRYABLE = [''ModelProviderError'', ''ModelRateLimitError'', ''ModelTimeoutError'']"

definition MAX_RETRIES :: nat where "MAX_RETRIES = 3"
definition BASE_BACKOFF :: real where "BASE_BACKOFF = 2"
definition MAX_BACKOFF :: real where "MAX_BACKOFF = 30"

text \<open>
  What one call of the router reads from its surroundings, indexed by the attempt number:
  the clock when the breaker is consulted and when a failure is recorded, and the value of
  \<open>random.uniform(0, 1)\<close>. A provider is the outcome of its \<open>call\<close> at each attempt:
  either the exception it raises or the response it returns.
\<close>

record router_env =
  now_allow :: "nat \<Rightarrow> real"
  now_fail :: "nat \<Rightarrow> real"
  uniform01 :: "nat \<Rightarrow> real"

type_synonym 'r provider = "nat \<Rightarrow> exn + 'r"

text \<open>The effects of a call that the outside can observe: provider invocations and
  sleeps, in order.\<close>

datatype effect = Called nat | Slept real

record 'r ModelRouter =
  providers :: "string \<rightharpoonup> 'r provider"
  breakers :: "string \<rightharpoonup> CircuitBreaker"

definition new_router :: "(string \<rightharpoonup> 'r provider) \<Rightarrow> exn + 'r ModelRouter" where
  "new_router ps =
     (if ps = Map.empty then Inl ValueError
      else Inr \<lparr>providers = ps,
                breakers = (\<lambda>n. if n \<in> dom ps then Some (default_breaker n) else None)\<rparr>)"

definition backoff_delay :: "nat \<Rightarrow> real \<Rightarrow> real" where
  "backoff_delay attempt u = min (BASE_BACKOFF * 2 ^ (attempt - 1) + u) MAX_BACKOFF"

text \<open>The body of \<open>for attempt in range(1, _MAX_RETRIES + 1)\<close>, over the attempts that
  remain, threading the breaker, \<open>last_err\<close> and the effects so far; the empty list is the
  statement after the loop.\<close>

fun retry_loop ::
  "router_env \<Rightarrow> 'r provider \<Rightarrow> nat list \<Rightarrow> CircuitBreaker \<Rightarrow> exn option \<Rightarrow> effect list
     \<Rightarrow> (exn + 'r) \<times> CircuitBreaker \<times> effect list" where
  "retry_loop env p [] b last_err eff =
     (Inl (ModelProviderExhaustedError last_err MAX_RETRIES), b, eff)"
| "retry_loop env p (attempt # rest) b last_err eff =
     (case allow_request b (now_allow env attempt) of
        (Inl e, b1) \<Rightarrow> (Inl e, b1, eff)
      | (Inr _, b1) \<Rightarrow>
          (case p attempt of
             Inr result \<Rightarrow> (Inr result, record_success b1, eff @ [Called attempt])
           | Inl exc \<Rightarrow>
               if isinstance exc [''ModelOutputValidationError'']
               then (Inl exc, record_failure b1 (now_fail env attempt), eff @ [Called attempt])
               else if isinstance exc RETRYABLE
               then retry_loop env p rest (record_failure b1 (now_fail env attempt)) (Some exc)
                      (eff @ Called attempt #
                         (if attempt < MAX_RETRIES
                          then [Slept (backoff_delay attempt (uniform01 env attempt))] else []))
               else (Inl exc, b1, eff @ [Called attempt])))"

text \<open>\<open>ModelRouter.call\<close>: the provider is looked up by the name in the request; the
  breaker of that name is mutated in place.\<close>

definition call ::
  "'r ModelRouter \<Rightarrow> router_env \<Rightarrow> string \<Rightarrow> (exn + 'r) \<times> 'r ModelRouter \<times> effect list" where
  "call r env request_provider =
     (case providers r request_provider of
        None \<Rightarrow> (Inl ValueError, r, [])
      | Some p \<Rightarrow>
          (case breakers r request_provider of
             None \<Rightarrow> (Inl (OtherException ''KeyError''), r, [])
           | Some b \<Rightarrow>
               (case retry_loop env p [1..<MAX_RETRIES + 1] b None [] of
                  (res, b', eff) \<Rightarrow>
                    (res, r\<lparr>breakers := (breakers r)(request_provider \<mapsto> b')\<rparr>, eff))))"

text \<open>Provider invocations among the effects.\<close>

fun is_call :: "effect \<Rightarrow> bool" where
  "is_call (Called _) = True"
| "is_call (Slept _) = False"

text \<open>A router with one provider named \<open>mock\<close>, a provider that always raises
  \<open>ModelRateLimitError\<close>, and surroundings where the clock stands still and the jitter
  is one half: the scenario of the router tests.\<close>

definition rate_limited :: "nat provider" where
  "rate_limited = (\<lambda>k. Inl ModelRateLimitError)"

definition flaky :: "nat provider" where
  "flaky = (\<lambda>k. if k = 1 then Inl ModelOutputValidationError else Inr 7)"

definition still_env :: router_env where
  "still_env = \<lparr>now_allow = (\<lambda>k. 0), now_fail = (\<lambda>k. 0), uniform01 = (\<lambda>k. 1 / 2)\<rparr>"

definition mock_router :: "nat provider \<Rightarrow> nat ModelRouter" where
  "mock_router p = \<lparr>providers = [''mock'' \<mapsto> p], breakers = [''mock'' \<mapsto> default_breaker ''mock'']\<rparr>"


section \<open>Audit store: the hash chain of events (aria/memory/sqlite.py)\<close>




























section \<open>Tool sandbox (aria/tools/sandbox.py)\<close>

text \<open>
  JSON values as Python's \<open>json\<close> module yields them; an object is the list of its items in
  iteration order (keys distinct). Non-finite floats are not represented.
\<close>

datatype json =
    JNull
  | JBool bool
  | JInt int
  | JFloat real
  | JStr string
  | JArr "json list"
  | JObj "(string \<times> json) list"

text \<open>Python's truth value of a JSON value, as \<open>not x\<close> and \<open>x or y\<close> test it.\<close>

fun truthy :: "json \<Rightarrow> bool" where
  "truthy JNull = False"
| "truthy (JBool b) = b"
| "truthy (JInt i) = (i \<noteq> 0)"
| "truthy (JFloat x) = (x \<noteq> 0)"
| "truthy (JStr s) = (s \<noteq> [])"
| "truthy (JArr xs) = (xs \<noteq> [])"
| "truthy (JObj kvs) = (kvs \<noteq> [])"

text \<open>
  The schema dictionaries of a manifest, read the way \<open>_validate_schema\<close> reads them: by
  the value of \<open>type\<close>, with \<open>properties\<close> (default empty), \<open>required\<close> (default empty)
  and whether \<open>additionalProperties\<close> is \<open>False\<close> for an object; \<open>minLength\<close> (default 0),
  \<open>maxLength\<close> (default none) and \<open>enum\<close> for a string; \<open>minimum\<close> and \<open>maximum\<close> for an
  integer. \<open>SOther\<close> is a schema whose \<open>type\<close> is absent or none of the five.
\<close>

datatype schema =
    SObject "(string \<times> schema) list" "string list" bool
  | SString nat "nat option" "string list option"
  | SInteger "int option" "int option"
  | SBoolean
  | SArray
  | SOther

text \<open>The error strings of \<open>_validate_schema\<close>, as the path they name and their kind.\<close>

datatype schema_error =
    ExpectedType string string
  | RequiredMissing string
  | AdditionalProperty string
  | TooShort string
  | TooLong string
  | NotInEnum string
  | BelowMinimum string
  | AboveMaximum string

fun validate_schema :: "json \<Rightarrow> schema \<Rightarrow> string \<Rightarrow> schema_error list" where
  "validate_schema data (SObject props required no_additional) path =
     (case data of
        JObj items \<Rightarrow>
          map (\<lambda>k. RequiredMissing (path @ ''.'' @ k))
              (filter (\<lambda>k. map_of items k = None) required)
          @ (if no_additional
             then map (\<lambda>k. AdditionalProperty (path @ ''.'' @ k))
                      (filter (\<lambda>k. map_of props k = None) (map fst items))
             else [])
          @ concat (map (\<lambda>(k, sub_schema).
                      case map_of items k of
                        Some v \<Rightarrow> validate_schema v sub_schema (path @ ''.'' @ k)
                      | None \<Rightarrow> []) props)
      | _ \<Rightarrow> [ExpectedType path ''object''])"
| "validate_schema data (SString min_l max_l enum) path =
     (case data of
        JStr s \<Rightarrow>
          (if length s < min_l then [TooShort path] else [])
          @ (case max_l of Some m \<Rightarrow> if length s > m then [TooLong path] else [] | None \<Rightarrow> [])
          @ (case enum of
               Some vs \<Rightarrow> if vs \<noteq> [] \<and> s \<notin> set vs then [NotInEnum path] else []
             | None \<Rightarrow> [])
      | _ \<Rightarrow> [ExpectedType path ''string''])"
| "validate_schema data (SInteger minimum maximum) path =
     (case data of
        JInt i \<Rightarrow>
          (case minimum of Some m \<Rightarrow> if i < m then [BelowMinimum path] else [] | None \<Rightarrow> [])
          @ (case maximum of Some m \<Rightarrow> if i > m then [AboveMaximum path] else [] | None \<Rightarrow> [])
      | _ \<Rightarrow> [ExpectedType path ''integer''])"
| "validate_schema data SBoolean path =
     (case data of JBool b \<Rightarrow> [] | _ \<Rightarrow> [ExpectedType path ''boolean''])"
| "validate_schema data SArray path =
     (case data of JArr xs \<Rightarrow> [] | _ \<Rightarrow> [ExpectedType path ''array''])"
| "validate_schema data SOther path = []"

record ToolManifest =
  tm_name :: string
  tm_timeout_seconds :: int
  tm_input_schema :: schema
  tm_output_schema :: schema
  tm_max_memory_mb :: int
  tm_allowed_paths :: "string list"

record ToolResult =
  tr_ok :: bool
  tr_tool_name :: string
  tr_tool_call_id :: string
  tr_data :: "json option"
  tr_error_type :: "string option"
  tr_error_message :: "json option"
  tr_duration_ms :: int

text \<open>
  What the sandbox reads from the host: the outcome of \<open>Path(p).resolve()\<close>, the child
  process run on a payload, \<open>json.loads\<close> (\<open>None\<close> for \<open>JSONDecodeError\<close>) and the elapsed
  milliseconds. \<open>Path.resolve\<close> returns the canonical path or raises: \<open>OSError\<close> or a
  subclass of it, \<open>ValueError\<close> (a null character in the path), or \<open>RuntimeError\<close> (a
  symlink loop, in Python before 3.13).
\<close>

datatype resolution = Resolved string | RaisesOSError | RaisesValueError | RaisesRuntimeError

fun path_resolve :: "resolution \<Rightarrow> exn + string" where
  "path_resolve (Resolved p) = Inr p"
| "path_resolve RaisesOSError = Inl (OtherException ''OSError'')"
| "path_resolve RaisesValueError = Inl (OtherException ''ValueError'')"
| "path_resolve RaisesRuntimeError = Inl (OtherException ''RuntimeError'')"

record spawn_payload =
  sp_tool_module_path :: string
  sp_input :: "(string \<times> json) list"
  sp_max_memory_mb :: int

datatype proc = TimeoutExpired | Completed int string string

record sandbox_env =
  resolve :: "string \<Rightarrow> resolution"
  subprocess_run :: "spawn_payload \<Rightarrow> proc"
  json_loads :: "string \<Rightarrow> json option"
  elapsed_ms :: int

definition path_like :: "string \<Rightarrow> bool" where
  "path_like v = (CHR ''/'' \<in> set v \<or> take 1 v = ''.'')"

definition startswith :: "string \<Rightarrow> string \<Rightarrow> bool" where
  "startswith s pre = (take (length pre) s = pre)"

definition under_base :: "string \<Rightarrow> string \<Rightarrow> bool" where
  "under_base resolved base = (resolved = base \<or> startswith resolved (base @ ''/''))"

text \<open>The inner function \<open>check\<close> of \<open>validate_paths\<close>: its \<open>except\<close> clause catches
  \<open>OSError\<close> and \<open>ValueError\<close>; any other exception of \<open>resolve\<close> passes through.\<close>

definition check_value :: "sandbox_env \<Rightarrow> string list \<Rightarrow> json \<Rightarrow> exn + unit" where
  "check_value env allowed_bases v =
     (case v of
        JStr s \<Rightarrow>
          if \<not> path_like s then Inr ()
          else (case path_resolve (resolve env s) of
                  Inl e \<Rightarrow>
                    if isinstance e [''OSError'', ''ValueError'']
                    then Inl PathTraversalError else Inl e
                | Inr resolved \<Rightarrow>
                    if \<not> list_ex (under_base resolved) allowed_bases
                    then Inl PathTraversalError else Inr ())
      | _ \<Rightarrow> Inr ())"

fun check_values :: "sandbox_env \<Rightarrow> string list \<Rightarrow> json list \<Rightarrow> exn + unit" where
  "check_values env allowed_bases [] = Inr ()"
| "check_values env allowed_bases (v # vs) =
     (case check_value env allowed_bases v of
        Inl e \<Rightarrow> Inl e
      | Inr _ \<Rightarrow> check_values env allowed_bases vs)"

text \<open>\<open>[Path(p).resolve() for p in manifest.allowed_paths]\<close>, outside any \<open>try\<close>: the first
  exception ends it.\<close>

fun resolve_all :: "sandbox_env \<Rightarrow> string list \<Rightarrow> exn + string list" where
  "resolve_all env [] = Inr []"
| "resolve_all env (p # ps) =
     (case path_resolve (resolve env p) of
        Inl e \<Rightarrow> Inl e
      | Inr b \<Rightarrow> (case resolve_all env ps of Inl e \<Rightarrow> Inl e | Inr bs \<Rightarrow> Inr (b # bs)))"

definition validate_paths ::
  "sandbox_env \<Rightarrow> (string \<times> json) list \<Rightarrow> ToolManifest \<Rightarrow> exn + unit" where
  "validate_paths env arguments manifest =
     (if tm_allowed_paths manifest = [] then Inr ()
      else (case resolve_all env (tm_allowed_paths manifest) of
              Inl e \<Rightarrow> Inl e
            | Inr allowed_bases \<Rightarrow> check_values env allowed_bases (map snd arguments)))"

definition validate_input :: "(string \<times> json) list \<Rightarrow> ToolManifest \<Rightarrow> exn + unit" where
  "validate_input arguments manifest =
     (if validate_schema (JObj arguments) (tm_input_schema manifest) ''input'' \<noteq> []
      then Inl ToolInputValidationError else Inr ())"

definition validate_output :: "json \<Rightarrow> ToolManifest \<Rightarrow> exn + unit" where
  "validate_output data manifest =
     (if validate_schema data (tm_output_schema manifest) ''output'' \<noteq> []
      then Inl ToolOutputValidationError else Inr ())"

text \<open>\<open>str.strip()\<close> on the characters that are whitespace in ASCII.\<close>

definition is_space :: "char \<Rightarrow> bool" where
  "is_space c = (of_char c \<in> {9, 10, 11, 12, 13, 28, 29, 30, 31, 32 :: nat})"

definition strip :: "string \<Rightarrow> string" where
  "strip s = rev (dropWhile is_space (rev (dropWhile is_space s)))"

text \<open>\<open>d.get(key, default)\<close> on the items of an object.\<close>

definition dict_get :: "(string \<times> json) list \<Rightarrow> string \<Rightarrow> json \<Rightarrow> json" where
  "dict_get items key dflt = (case map_of items key of Some v \<Rightarrow> v | None \<Rightarrow> dflt)"

text \<open>
  \<open>run_tool_sandboxed\<close> returns its result or the exception it raises, together with the
  payloads of the child processes it has spawned.
\<close>

definition run_tool_sandboxed ::
  "sandbox_env \<Rightarrow> ToolManifest \<Rightarrow> (string \<times> json) list \<Rightarrow> string
     \<Rightarrow> (exn + ToolResult) \<times> spawn_payload list" where
  "run_tool_sandboxed env manifest arguments tool_module_path =
     (case validate_input arguments manifest of
        Inl e \<Rightarrow> (Inl e, [])
      | Inr _ \<Rightarrow>
     (case validate_paths env arguments manifest of
        Inl e \<Rightarrow> (Inl e, [])
      | Inr _ \<Rightarrow>
     (let payload = \<lparr>sp_tool_module_path = tool_module_path, sp_input = arguments,
                     sp_max_memory_mb = tm_max_memory_mb manifest\<rparr>;
          ms = elapsed_ms env
      in (case subprocess_run env payload of
            TimeoutExpired \<Rightarrow> (Inl ToolTimeoutError, [payload])
          | Completed returncode out err \<Rightarrow>
              if returncode \<noteq> 0 then (Inl ToolSandboxError, [payload])
              else let stdout = strip out in
                if stdout = [] then (Inl ToolSandboxError, [payload])
                else (case json_loads env stdout of
                        None \<Rightarrow> (Inl ToolSandboxError, [payload])
                      | Some (JObj payload_out) \<Rightarrow>
                          if \<not> truthy (dict_get payload_out ''ok'' (JBool False))
                          then (Inr \<lparr>tr_ok = False, tr_tool_name = tm_name manifest,
                                     tr_tool_call_id = '''', tr_data = None,
                                     tr_error_type = Some ''ToolExecutionError'',
                                     tr_error_message =
                                       Some (dict_get payload_out ''error'' (JStr ''Unknown'')),
                                     tr_duration_ms = ms\<rparr>, [payload])
                          else
                            let d = dict_get payload_out ''data'' JNull;
                                data = (if truthy d then d else JObj [])
                            in (case validate_output data manifest of
                                  Inl e \<Rightarrow> (Inl e, [payload])
                                | Inr _ \<Rightarrow>
                                    (Inr \<lparr>tr_ok = True, tr_tool_name = tm_name manifest,
                                          tr_tool_call_id = '''', tr_data = Some data,
                                          tr_error_type = None, tr_error_message = None,
                                          tr_duration_ms = ms\<rparr>, [payload]))
                      | Some _ \<Rightarrow> (Inl (OtherException ''AttributeError''), [payload]))))))"

text \<open>A host for running the sandbox on: paths resolve to themselves, the child exits 0
  and its output parses to the given JSON value; a manifest like that of the bundled
  \<open>read_file\<close> tool, confined to \<open>/tmp\<close>; a manifest whose tool takes a list of paths; and a
  host on which \<open>/tmp/loop\<close> is a symbolic link to itself.\<close>

definition child_env :: "json \<Rightarrow> sandbox_env" where
  "child_env printed =
     \<lparr>resolve = (\<lambda>p. Resolved p),
      subprocess_run = (\<lambda>payload. Completed 0 ''{}'' []),
      json_loads = (\<lambda>s. Some printed),
      elapsed_ms = 5\<rparr>"

definition read_manifest :: ToolManifest where
  "read_manifest =
     \<lparr>tm_name = ''read_file'', tm_timeout_seconds = 10,
      tm_input_schema = SObject [(''path'', SString 0 None None)] [''path''] False,
      tm_output_schema = SObject [] [] False,
      tm_max_memory_mb = 256, tm_allowed_paths = [''/tmp'']\<rparr>"



section \<open>Agent kernel (aria/kernel/kernel.py)\<close>

text \<open>
  The kernel runs against a store, a router, a registry and a sandbox. The model keeps the
  part of the store that one session touches (its row of \<open>sessions\<close>, its rows of \<open>steps\<close>,
  the types of its audit events, the roles of its conversation) and the names that the
  kernel writes to the logger. Everything the kernel reads from outside is an input:
  whether the \<open>k\<close>-th access to the database succeeds, whether the injection scan hits,
  what \<open>router.call\<close> and \<open>run_tool_sandboxed\<close> return or raise in step \<open>n\<close>, the registry
  and the limits of the configuration. A failing write raises \<open>AuditWriteFailureError\<close>, a
  failing read \<open>MemoryCorruptionError\<close>, as in \<open>SQLiteStorage\<close>. Timing and identifiers
  are left out; the cost of a step is the value \<open>_calculate_cost\<close> returns for the response.
\<close>

datatype MessageRole = SYSTEM | USER | ASSISTANT | TOOL

datatype ActionType = FINAL_ANSWER string | TOOL_CALL string

record RawModelResponse =
  rr_action :: ActionType
  rr_cost :: real

record session_row =
  sr_status :: SessionStatus
  sr_total_steps :: int
  sr_total_cost_usd :: real
  sr_error_type :: "string option"
  sr_error_msg :: "string option"

record step_row =
  step_number :: int
  step_completed :: bool
  step_cost_usd :: "real option"

record kernel_env =
  db_ok :: "nat \<Rightarrow> bool"
  injection_hit :: bool
  router_call :: "int \<Rightarrow> exn + RawModelResponse"
  has_tool :: "string \<Rightarrow> bool"
  disallowed :: "string \<Rightarrow> bool"
  run_tool :: "int \<Rightarrow> exn + bool"
  max_steps :: int
  max_cost_usd :: real
  str_of :: "exn \<Rightarrow> string"

record kstate =
  fsm :: SessionFSM
  total_cost :: real
  final_answer :: "string option"
  sessions :: "session_row option"
  steps :: "step_row list"
  audit_log :: "string list"
  history :: "MessageRole list"
  logger :: "string list"
  db_ops :: nat

record SessionResult =
  res_status :: SessionStatus
  res_answer :: "string option"
  res_steps_taken :: int
  res_total_cost_usd :: real
  res_error_type :: "string option"
  res_error_message :: "string option"

definition init_state :: "string \<Rightarrow> kstate" where
  "init_state session_id =
     \<lparr>fsm = new_fsm session_id, total_cost = 0, final_answer = None, sessions = None,
      steps = [], audit_log = [], history = [], logger = [], db_ops = 0\<rparr>"

text \<open>Sequencing of statements that may raise: the second runs in the state the first
  leaves, unless the first raised.\<close>

definition bind_k ::
  "(kstate \<Rightarrow> (exn + 'a) \<times> kstate) \<Rightarrow> ('a \<Rightarrow> kstate \<Rightarrow> (exn + 'b) \<times> kstate)
     \<Rightarrow> kstate \<Rightarrow> (exn + 'b) \<times> kstate" where
  "bind_k m f st = (case m st of (Inl e, st1) \<Rightarrow> (Inl e, st1) | (Inr x, st1) \<Rightarrow> f x st1)"

definition return_k :: "'a \<Rightarrow> kstate \<Rightarrow> (exn + 'a) \<times> kstate" where
  "return_k x st = (Inr x, st)"

definition raise_k :: "exn \<Rightarrow> kstate \<Rightarrow> (exn + 'a) \<times> kstate" where
  "raise_k e st = (Inl e, st)"

definition log_k :: "string \<Rightarrow> kstate \<Rightarrow> kstate" where
  "log_k name st = st\<lparr>logger := logger st @ [name]\<rparr>"

text \<open>\<open>round(cost, 6)\<close>: to the nearest multiple of \<open>10\<^sup>-\<^sup>6\<close>, ties to the even one.\<close>

definition round_half_even :: "real \<Rightarrow> int" where
  "round_half_even x =
     (let f = \<lfloor>x\<rfloor>; d = x - of_int f
      in if d < 1 / 2 then f else if d > 1 / 2 then f + 1 else if even f then f else f + 1)"

definition round6 :: "real \<Rightarrow> real" where
  "round6 x = of_int (round_half_even (x * 1000000)) / 1000000"

text \<open>One statement on the database: it counts as an access, and takes effect only when
  the access succeeds.\<close>

definition db_write :: "kernel_env \<Rightarrow> (kstate \<Rightarrow> kstate) \<Rightarrow> kstate \<Rightarrow> (exn + unit) \<times> kstate" where
  "db_write env upd st =
     (let st1 = st\<lparr>db_ops := db_ops st + 1\<rparr>
      in if db_ok env (db_ops st) then (Inr (), upd st1) else (Inl AuditWriteFailureError, st1))"

definition db_read :: "kernel_env \<Rightarrow> kstate \<Rightarrow> (exn + unit) \<times> kstate" where
  "db_read env st =
     (let st1 = st\<lparr>db_ops := db_ops st + 1\<rparr>
      in if db_ok env (db_ops st) then (Inr (), st1) else (Inl MemoryCorruptionError, st1))"

definition create_session :: "kernel_env \<Rightarrow> kstate \<Rightarrow> (exn + unit) \<times> kstate" where
  "create_session env =
     db_write env (\<lambda>s. s\<lparr>sessions := Some \<lparr>sr_status = IDLE, sr_total_steps = 0,
        sr_total_cost_usd = 0, sr_error_type = None, sr_error_msg = None\<rparr>\<rparr>)"

definition get_conversation_history :: "kernel_env \<Rightarrow> kstate \<Rightarrow> (exn + unit) \<times> kstate" where
  "get_conversation_history env = db_read env"

definition append_message :: "kernel_env \<Rightarrow> MessageRole \<Rightarrow> kstate \<Rightarrow> (exn + unit) \<times> kstate" where
  "append_message env role =
     bind_k (get_conversation_history env)
       (\<lambda>_. db_write env (\<lambda>s. s\<lparr>history := history s @ [role]\<rparr>))"

definition write_step_start :: "kernel_env \<Rightarrow> int \<Rightarrow> kstate \<Rightarrow> (exn + unit) \<times> kstate" where
  "write_step_start env n =
     db_write env (\<lambda>s. s\<lparr>steps := steps s @
        [\<lparr>step_number = n, step_completed = False, step_cost_usd = None\<rparr>]\<rparr>)"

definition write_step_end :: "kernel_env \<Rightarrow> int \<Rightarrow> real \<Rightarrow> kstate \<Rightarrow> (exn + unit) \<times> kstate" where
  "write_step_end env n cost =
     db_write env (\<lambda>s. s\<lparr>steps :=
        map (\<lambda>r. if step_number r = n
                 then r\<lparr>step_completed := True, step_cost_usd := Some cost\<rparr> else r) (steps s)\<rparr>)"

text \<open>\<open>_emit\<close> and \<open>_sync_session\<close>: on a failed write they log and re-raise.\<close>

definition emit :: "kernel_env \<Rightarrow> string \<Rightarrow> kstate \<Rightarrow> (exn + unit) \<times> kstate" where
  "emit env event_type st =
     (case db_write env (\<lambda>s. s\<lparr>audit_log := audit_log s @ [event_type]\<rparr>) st of
        (Inl e, st1) \<Rightarrow> (Inl e, log_k ''audit_emit_failed'' st1)
      | (Inr u, st1) \<Rightarrow> (Inr u, st1))"

definition sync_session ::
  "kernel_env \<Rightarrow> int \<Rightarrow> string option \<Rightarrow> string option \<Rightarrow> kstate \<Rightarrow> (exn + unit) \<times> kstate" where
  "sync_session env step_count error_type error_msg st =
     (case db_write env (\<lambda>s. s\<lparr>sessions :=
              map_option (\<lambda>r. \<lparr>sr_status = fsm_state (fsm s), sr_total_steps = step_count,
                               sr_total_cost_usd = round6 (total_cost s),
                               sr_error_type = error_type, sr_error_msg = error_msg\<rparr>)
                (sessions s)\<rparr>) st of
        (Inl e, st1) \<Rightarrow> (Inl e, log_k ''session_sync_failed'' st1)
      | (Inr u, st1) \<Rightarrow> (Inr u, st1))"

definition fsm_transition :: "SessionStatus \<Rightarrow> kstate \<Rightarrow> (exn + unit) \<times> kstate" where
  "fsm_transition to_state st =
     (case transition (fsm st) to_state of
        (Inl e, f) \<Rightarrow> (Inl e, st\<lparr>fsm := f\<rparr>)
      | (Inr u, f) \<Rightarrow> (Inr u, st\<lparr>fsm := f\<rparr>))"

text \<open>\<open>_execute_tool\<close>: the four host-enforced failures become a result that is not ok;
  any other exception of the sandbox passes through.\<close>

definition execute_tool :: "kernel_env \<Rightarrow> int \<Rightarrow> kstate \<Rightarrow> (exn + bool) \<times> kstate" where
  "execute_tool env n =
     bind_k (emit env ''tool_call_start'')
       (\<lambda>_. case run_tool env n of
               Inl e \<Rightarrow>
                 if isinstance e [''ToolTimeoutError'', ''ToolSandboxError'',
                                  ''ToolInputValidationError'', ''PathTraversalError'']
                 then bind_k (\<lambda>s. emit env ''tool_call_failed'' (log_k ''tool_failed'' s))
                        (\<lambda>_. return_k False)
                 else raise_k e
             | Inr ok \<Rightarrow> bind_k (emit env ''tool_call_end'') (\<lambda>_. return_k ok))"

text \<open>The body of the main loop from the write of the step trace on, in step \<open>n\<close>.\<close>

definition model_step :: "kernel_env \<Rightarrow> int \<Rightarrow> kstate \<Rightarrow> (exn + unit) \<times> kstate" where
  "model_step env n =
     bind_k (write_step_start env n)
       (\<lambda>_. case router_call env n of
               Inl e \<Rightarrow> raise_k e
             | Inr response \<Rightarrow>
                 bind_k (\<lambda>s. return_k () (s\<lparr>total_cost := total_cost s + rr_cost response\<rparr>))
                   (\<lambda>_. case rr_action response of
                           FINAL_ANSWER text \<Rightarrow>
                             bind_k (write_step_end env n (rr_cost response))
                               (\<lambda>_. bind_k (\<lambda>s. return_k () (s\<lparr>final_answer := Some text\<rparr>))
                               (\<lambda>_. bind_k (append_message env ASSISTANT)
                               (\<lambda>_. fsm_transition DONE)))
                         | TOOL_CALL tool_name \<Rightarrow>
                             if \<not> has_tool env tool_name then raise_k UnknownToolError
                             else if disallowed env tool_name then raise_k PermissionDeniedError
                             else
                               bind_k (write_step_end env n (rr_cost response))
                               (\<lambda>_. bind_k (append_message env ASSISTANT)
                               (\<lambda>_. bind_k (fsm_transition WAITING)
                               (\<lambda>_. bind_k (sync_session env n None None)
                               (\<lambda>_. bind_k (execute_tool env n)
                               (\<lambda>tool_ok. bind_k (fsm_transition RUNNING)
                               (\<lambda>_. bind_k (sync_session env n None None)
                               (\<lambda>_. append_message env TOOL)))))))))"

text \<open>\<open>while not fsm.is_terminal\<close>: the loop returns the value of \<open>step_count\<close> with
  its outcome. It ends because \<open>step_count\<close> grows and may not exceed \<open>max_steps\<close>.\<close>

function main_loop :: "kernel_env \<Rightarrow> int \<Rightarrow> kstate \<Rightarrow> (exn + unit) \<times> int \<times> kstate" where
  "main_loop env step_count st =
     (if is_terminal (fsm st) then (Inr (), step_count, st)
      else
        (case get_conversation_history env st of
           (Inl e, st1) \<Rightarrow> (Inl e, step_count + 1, st1)
         | (Inr _, st1) \<Rightarrow>
             if step_count + 1 > max_steps env
             then (Inl StepLimitExceededError, step_count + 1, st1)
             else if total_cost st1 > max_cost_usd env
             then (Inl CostBudgetExceededError, step_count + 1, st1)
             else (case model_step env (step_count + 1) st1 of
                     (Inl e, st2) \<Rightarrow> (Inl e, step_count + 1, st2)
                   | (Inr _, st2) \<Rightarrow> main_loop env (step_count + 1) st2)))"
  by pat_completeness auto
termination
  by (relation "measure (\<lambda>(env, step_count, st). nat (max_steps env - step_count))") auto

text \<open>\<open>if not fsm.is_terminal: fsm.transition(SessionStatus.FAILED)\<close>\<close>

definition fail_unless_terminal :: "kstate \<Rightarrow> (exn + unit) \<times> kstate" where
  "fail_unless_terminal st =
     (if \<not> is_terminal (fsm st) then fsm_transition FAILED st else (Inr (), st))"

definition audit_halt_msg :: string where
  "audit_halt_msg =
     ''Audit write failed '' @ [CHR 0xE2, CHR 0x80, CHR 0x94] @ '' session terminated''"

text \<open>
  The \<open>except\<close> clauses after the main loop, tried in their order, for the exception \<open>e\<close>
  that left the loop. A clause that completes yields \<open>error_type\<close> and \<open>error_msg\<close>; the
  clause for \<open>AuditWriteFailureError\<close> always raises. An exception raised inside a clause
  leaves \<open>run\<close>.
\<close>

definition classified ::
  "kernel_env \<Rightarrow> string \<Rightarrow> exn \<Rightarrow> string \<Rightarrow> kstate
     \<Rightarrow> (exn + string option \<times> string option) \<times> kstate" where
  "classified env event e msg =
     bind_k (\<lambda>s. emit env event (log_k event s))
       (\<lambda>_. bind_k fail_unless_terminal
       (\<lambda>_. return_k (Some (class_name e), Some msg)))"

definition handle_exception ::
  "kernel_env \<Rightarrow> int \<Rightarrow> exn \<Rightarrow> kstate \<Rightarrow> (exn + string option \<times> string option) \<times> kstate" where
  "handle_exception env step_count e =
     (if isinstance e [''StepLimitExceededError'', ''CostBudgetExceededError'', ''LimitError'']
      then classified env ''limit_exceeded'' e (str_of env e)
      else if isinstance e [''SecurityError'', ''PathTraversalError'']
      then classified env ''security_error'' e (str_of env e)
      else if isinstance e [''ModelProviderExhaustedError'', ''CircuitBreakerOpenError'']
      then classified env ''provider_failure'' e (str_of env e)
      else if isinstance e [''AuditWriteFailureError'']
      then bind_k (\<lambda>s. fail_unless_terminal (log_k ''audit_write_failure_halt'' s))
             (\<lambda>_. bind_k (sync_session env step_count (Some ''AuditWriteFailureError'')
                            (Some audit_halt_msg))
             (\<lambda>_. raise_k e))
      else classified env ''unexpected_error'' e
             (''Unexpected error ('' @ class_name e @ ''). Check audit log.''))"

definition teardown ::
  "kernel_env \<Rightarrow> int \<Rightarrow> string option \<times> string option \<Rightarrow> kstate
     \<Rightarrow> (exn + SessionResult) \<times> kstate" where
  "teardown env step_count err =
     bind_k (emit env ''session_end'')
       (\<lambda>_. bind_k (sync_session env step_count (fst err) (snd err))
       (\<lambda>_ s. return_k
                \<lparr>res_status = fsm_state (fsm s), res_answer = final_answer s,
                 res_steps_taken = step_count, res_total_cost_usd = round6 (total_cost s),
                 res_error_type = fst err, res_error_message = snd err\<rparr> s))"

text \<open>The statements of \<open>run\<close> before the \<open>try\<close>: nothing catches what they raise.\<close>

definition startup :: "kernel_env \<Rightarrow> kstate \<Rightarrow> (exn + unit) \<times> kstate" where
  "startup env =
     bind_k (\<lambda>s. case create_session env s of
                    (Inl e, s1) \<Rightarrow> (Inl e, log_k ''session_create_failed'' s1)
                  | (Inr u, s1) \<Rightarrow> (Inr u, s1))
       (\<lambda>_. bind_k (if injection_hit env
                     then (\<lambda>s. emit env ''injection_scan_warn'' (log_k ''injection_scan_hit'' s))
                     else return_k ())
       (\<lambda>_. bind_k (emit env ''session_start'')
       (\<lambda>_. bind_k (fsm_transition RUNNING)
       (\<lambda>_. bind_k (sync_session env 0 None None)
       (\<lambda>_. bind_k (append_message env USER)
       (\<lambda>_. get_conversation_history env))))))"

definition run :: "kernel_env \<Rightarrow> string \<Rightarrow> (exn + SessionResult) \<times> kstate" where
  "run env session_id =
     bind_k (startup env)
       (\<lambda>_ s. case main_loop env 0 s of
                 (Inr _, step_count, s1) \<Rightarrow> teardown env step_count (None, None) s1
               | (Inl e, step_count, s1) \<Rightarrow>
                   bind_k (handle_exception env step_count e)
                     (\<lambda>err. teardown env step_count err) s1)
       (init_state session_id)"

text \<open>Scenarios: a provider that answers at once and one that asks for the tool
  \<open>read_file\<close> in every step, each at a given cost per step; and a configuration with a
  registry that knows and allows every tool and a sandbox in which every tool succeeds.\<close>

definition answering :: "real \<Rightarrow> int \<Rightarrow> exn + RawModelResponse" where
  "answering cost n = Inr \<lparr>rr_action = FINAL_ANSWER ''42'', rr_cost = cost\<rparr>"


definition healthy :: "(nat \<Rightarrow> bool) \<Rightarrow> (int \<Rightarrow> exn + RawModelResponse) \<Rightarrow> int \<Rightarrow> kernel_env" where
  "healthy ok provider limit =
     \<lparr>db_ok = ok, injection_hit = False, router_call = provider,
      has_tool = (\<lambda>t. True), disallowed = (\<lambda>t. False), run_tool = (\<lambda>n. Inr True),
      max_steps = limit, max_cost_usd = 1, str_of = class_name\<rparr>"

text \<open>The state that a start-up without failure and without injection warning leaves.\<close>

definition started :: "string \<Rightarrow> kstate" where
  "started session_id =
     \<lparr>fsm = \<lparr>fsm_state = RUNNING, fsm_session_id = session_id,
              fsm_history = [(IDLE, RUNNING)]\<rparr>,
      total_cost = 0, final_answer = None,
      sessions = Some \<lparr>sr_status = RUNNING, sr_total_steps = 0, sr_total_cost_usd = 0,
                        sr_error_type = None, sr_error_msg = None\<rparr>,
      steps = [], audit_log = [''session_start''], history = [USER], logger = [],
      db_ops = 6\<rparr>"



definition unreadable :: kernel_env where
  "unreadable = healthy (\<lambda>k. k \<noteq> 3) (answering (3 / 1000)) 5"

definition unwritable :: kernel_env where
  "unwritable = healthy (\<lambda>k. k \<noteq> 7) (answering (3 / 1000)) 5"

definition unwritable_since :: kernel_env where
  "unwritable_since = healthy (\<lambda>k. k < 7) (answering (3 / 1000)) 5"







text \<open>\<open>SELECT SUM(cost_usd)\<close> over step rows: a row never finalised has no cost.\<close>

definition cost_sum :: "step_row list \<Rightarrow> real" where
  "cost_sum rows = sum_list (map (\<lambda>r. case step_cost_usd r of None \<Rightarrow> 0 | Some c \<Rightarrow> c) rows)"

text \<open>What holds of the totals whenever the loop is at its head with \<open>step_count = n\<close>.\<close>

definition totals_inv :: "int \<Rightarrow> kstate \<Rightarrow> bool" where
  "totals_inv n st =
     (int (length (steps st)) = n \<and> cost_sum (steps st) = total_cost st \<and>
      list_all (\<lambda>r. step_number r \<le> n) (steps st) \<and> sessions st \<noteq> None)"

text \<open>What holds when the exception \<open>e\<close> leaves the loop with \<open>step_count = m\<close>: the
  session is live; the step has its row unless the exception came before the row was
  written; the rows hold the accumulated cost unless the exception came between the
  costing of the step and the write of its cost.\<close>

definition raised_at :: "int \<Rightarrow> exn \<Rightarrow> kstate \<Rightarrow> bool" where
  "raised_at m e st =
     (fsm_state (fsm st) \<in> {RUNNING, WAITING} \<and> sessions st \<noteq> None
      \<and> (int (length (steps st)) = m
           \<or> int (length (steps st)) + 1 = m
             \<and> e \<in> {StepLimitExceededError, CostBudgetExceededError, MemoryCorruptionError,
                      AuditWriteFailureError})
      \<and> (cost_sum (steps st) = total_cost st
           \<or> e \<in> {UnknownToolError, PermissionDeniedError, AuditWriteFailureError}))"



section \<open>Properties\<close>

subsection \<open>Session FSM\<close>

lemma VALID_spec_table: "(to_state \<in> set (VALID s)) = ((s, to_state) \<in> set spec_table)"
  by (cases s; cases to_state; simp add: spec_table_def)

text \<open>
  Claim C6. A fresh \<open>SessionFSM\<close> is in IDLE. For every state of the machine and every
  requested target, \<open>transition\<close> succeeds and moves to the target (appending the pair
  to the history) exactly when the pair is in the specified table; for every other pair,
  in particular for every pair whose source is DONE, FAILED or CANCELLED, it raises
  \<open>InvalidStateTransitionError\<close> carrying the names of the source and the target and
  leaves the machine unchanged.
\<close>

theorem fsm_transition_table:
  "fsm_state (new_fsm sid) = IDLE
   \<and> transition f to_state =
       (if (fsm_state f, to_state) \<in> set spec_table
        then (Inr (), f\<lparr>fsm_history := fsm_history f @ [(fsm_state f, to_state)],
                         fsm_state := to_state\<rparr>)
        else (Inl (InvalidStateTransitionError (status_value (fsm_state f))
                     (status_value to_state)), f))
   \<and> (fsm_state f \<in> {DONE, FAILED, CANCELLED} \<longrightarrow> (fsm_state f, to_state) \<notin> set spec_table)"
  by (cases "fsm_state f"; simp add: transition_def VALID_spec_table new_fsm_def; simp add: spec_table_def)

theorem fsm_transition_table_witness:
  "fsm_state (new_fsm ''s'') = IDLE
   \<and> transition (new_fsm ''s'') RUNNING =
        (Inr (), \<lparr>fsm_state = RUNNING, fsm_session_id = ''s'', fsm_history = [(IDLE, RUNNING)]\<rparr>)
   \<and> transition \<lparr>fsm_state = DONE, fsm_session_id = ''s'', fsm_history = []\<rparr> RUNNING =
        (Inl (InvalidStateTransitionError ''DONE'' ''RUNNING''),
         \<lparr>fsm_state = DONE, fsm_session_id = ''s'', fsm_history = []\<rparr>)
   \<and> DONE \<in> {DONE, FAILED, CANCELLED} \<and> (DONE, RUNNING) \<notin> set spec_table"
  using fsm_transition_table [of "''s''" "new_fsm ''s''" RUNNING]
        fsm_transition_table [of "''s''" "\<lparr>fsm_state = DONE, fsm_session_id = ''s'', fsm_history = []\<rparr>" RUNNING]
  by (simp add: new_fsm_def spec_table_def)

subsection \<open>Circuit breaker\<close>

text \<open>
  Claim C7. In CLOSED, \<open>record_failure\<close> drops the timestamps that are at least
  \<open>window_seconds\<close> old, appends the current one, and when the window then holds at least
  \<open>failure_threshold\<close> timestamps it moves to OPEN, records \<open>opened_at\<close> and clears the
  window. In OPEN the state query stays OPEN and \<open>allow_request\<close> raises
  \<open>CircuitBreakerOpenError\<close> with the provider's name as long as
  \<open>now - opened_at < recovery_seconds\<close>; once \<open>now - opened_at \<ge> recovery_seconds\<close> the
  state query yields HALF_OPEN (and the request is admitted). In HALF_OPEN a recorded success
  returns to CLOSED and clears \<open>opened_at\<close>; a recorded failure returns to OPEN with
  \<open>opened_at = now\<close>.
\<close>

theorem breaker_lifecycle:
  "(cb_state b = CLOSED \<longrightarrow>
      record_failure b now =
        (let fs = filter (\<lambda>t. now - t < cb_window b) (cb_failures b) @ [now]
         in if cb_threshold b \<le> int (length fs)
            then b\<lparr>cb_failures := [], cb_opened_at := Some now, cb_state := OPEN\<rparr>
            else b\<lparr>cb_failures := fs\<rparr>))
   \<and> (cb_state b = OPEN \<and> cb_opened_at b = Some t0 \<and> now - t0 < cb_recovery b \<longrightarrow>
        state b now = (OPEN, b)
        \<and> allow_request b now = (Inl (CircuitBreakerOpenError (cb_provider b)), b))
   \<and> (cb_state b = OPEN \<and> cb_opened_at b = Some t0 \<and> cb_recovery b \<le> now - t0 \<longrightarrow>
        state b now = (HALF_OPEN, b\<lparr>cb_state := HALF_OPEN\<rparr>)
        \<and> allow_request b now = (Inr (), b\<lparr>cb_state := HALF_OPEN\<rparr>))
   \<and> (cb_state b = HALF_OPEN \<longrightarrow>
        record_success b = b\<lparr>cb_failures := [], cb_state := CLOSED, cb_opened_at := None\<rparr>
        \<and> record_failure b now = b\<lparr>cb_opened_at := Some now, cb_state := OPEN\<rparr>)"
  by (simp add: record_failure_def record_success_def state_def allow_request_def Let_def)

theorem breaker_lifecycle_witness:
  "record_failure ((default_breaker ''p'')\<lparr>cb_failures := [0, 10]\<rparr>) 20
     = (default_breaker ''p'')\<lparr>cb_failures := [], cb_opened_at := Some 20, cb_state := OPEN\<rparr>
   \<and> allow_request ((default_breaker ''p'')\<lparr>cb_opened_at := Some 20, cb_state := OPEN\<rparr>) 50
     = (Inl (CircuitBreakerOpenError ''p''),
        (default_breaker ''p'')\<lparr>cb_opened_at := Some 20, cb_state := OPEN\<rparr>)
   \<and> state ((default_breaker ''p'')\<lparr>cb_opened_at := Some 20, cb_state := OPEN\<rparr>) 140
     = (HALF_OPEN, (default_breaker ''p'')\<lparr>cb_opened_at := Some 20, cb_state := HALF_OPEN\<rparr>)
   \<and> record_success ((default_breaker ''p'')\<lparr>cb_opened_at := Some 20, cb_state := HALF_OPEN\<rparr>)
     = default_breaker ''p''
   \<and> record_failure ((default_breaker ''p'')\<lparr>cb_opened_at := Some 20, cb_state := HALF_OPEN\<rparr>) 150
     = (default_breaker ''p'')\<lparr>cb_opened_at := Some 150, cb_state := OPEN\<rparr>"
  using breaker_lifecycle [of "(default_breaker ''p'')\<lparr>cb_failures := [0, 10]\<rparr>" 20 20]
        breaker_lifecycle [of "(default_breaker ''p'')\<lparr>cb_opened_at := Some 20, cb_state := OPEN\<rparr>" 50 20]
        breaker_lifecycle [of "(default_breaker ''p'')\<lparr>cb_opened_at := Some 20, cb_state := OPEN\<rparr>" 140 20]
        breaker_lifecycle [of "(default_breaker ''p'')\<lparr>cb_opened_at := Some 20, cb_state := HALF_OPEN\<rparr>" 150 20]
  by (simp add: default_breaker_def new_breaker_def)

subsection \<open>Model router\<close>

lemma allow_request_open:
  "allow_request b now = (Inl e, ba)
   \<Longrightarrow> e = CircuitBreakerOpenError (cb_provider b) \<and> cb_failures ba = cb_failures b"
  by (auto simp: allow_request_def state_def split: option.splits if_splits)

lemma retry_loop_calls:
  "retry_loop env p as b last_err eff = (res, b', eff')
   \<Longrightarrow> length (filter is_call eff') \<le> length (filter is_call eff) + length as"
proof (induction as arbitrary: b last_err eff)
  case Nil
  then show ?case by simp
next
  case (Cons a as)
  show ?case
  proof (cases "allow_request b (now_allow env a)")
    case (Pair r ba)
    show ?thesis
    proof (cases r)
      case (Inl e)
      with Pair Cons.prems show ?thesis by simp
    next
      case (Inr u)
      show ?thesis
      proof (cases "p a")
        case (Inr result)
        with Pair \<open>r = Inr u\<close> Cons.prems show ?thesis by auto
      next
        case (Inl exc)
        show ?thesis
        proof (cases "\<not> isinstance exc [''ModelOutputValidationError''] \<and> isinstance exc RETRYABLE")
          case True
          with Pair \<open>r = Inr u\<close> Inl Cons.prems
          have "retry_loop env p as (record_failure ba (now_fail env a)) (Some exc)
                  (eff @ Called a # (if a < MAX_RETRIES
                     then [Slept (backoff_delay a (uniform01 env a))] else [])) = (res, b', eff')"
            by simp
          from Cons.IH [OF this] show ?thesis by (simp split: if_splits)
        next
          case False
          with Pair \<open>r = Inr u\<close> Inl Cons.prems show ?thesis by (auto split: if_splits)
        qed
      qed
    qed
  qed
qed

lemma retryable_inst:
  "exc \<in> {ModelProviderError, ModelRateLimitError, ModelTimeoutError}
   \<Longrightarrow> isinstance exc RETRYABLE \<and> \<not> isinstance exc [''ModelOutputValidationError'']"
  by (auto simp: isinstance_def RETRYABLE_def mro_def superclasses_def)

lemma validation_inst: "isinstance ModelOutputValidationError [''ModelOutputValidationError'']"
  by (simp add: isinstance_def mro_def)

lemma upt_from: "k < 4 \<Longrightarrow> [k..<4] = k # [Suc k..<4]"
  by (simp add: upt_conv_Cons)

lemma call_unfold:
  "providers r name = Some p \<Longrightarrow> breakers r name = Some b
   \<Longrightarrow> call r env name =
         (case retry_loop env p [1..<4] b None [] of
            (res, b', eff) \<Rightarrow> (res, r\<lparr>breakers := (breakers r)(name \<mapsto> b')\<rparr>, eff))"
  by (simp add: call_def MAX_RETRIES_def)

lemma call_at_most_three:
  assumes "providers r name = Some p" and "breakers r name = Some b"
  shows "length (filter is_call (snd (snd (call r env name)))) \<le> 3"
proof (cases "retry_loop env p [1..<4] b None []")
  case (fields res b' eff')
  from retry_loop_calls [OF fields] have "length (filter is_call eff') \<le> 3" by simp
  with call_unfold [OF assms, of env] fields show ?thesis by simp
qed

lemma loop_breaker_open:
  assumes "k \<le> 3" and a: "allow_request bk (now_allow env k) = (Inl e, ba)"
  shows "e = CircuitBreakerOpenError (cb_provider bk) \<and> cb_failures ba = cb_failures bk
         \<and> retry_loop env p [k..<4] bk last_err eff = (Inl e, ba, eff)"
proof -
  from assms have "[k..<4] = k # [Suc k..<4]" by (simp add: upt_from)
  with a allow_request_open [OF a] show ?thesis by simp
qed

lemma loop_success:
  assumes "k \<le> 3" and "allow_request bk (now_allow env k) = (Inr (), ba)" and "p k = Inr result"
  shows "retry_loop env p [k..<4] bk last_err eff
           = (Inr result, record_success ba, eff @ [Called k])"
proof -
  from assms have "[k..<4] = k # [Suc k..<4]" by (simp add: upt_from)
  with assms show ?thesis by simp
qed

lemma loop_validation:
  assumes "k \<le> 3" and "allow_request bk (now_allow env k) = (Inr (), ba)"
    and "p k = Inl ModelOutputValidationError"
  shows "retry_loop env p [k..<4] bk last_err eff
           = (Inl ModelOutputValidationError, record_failure ba (now_fail env k),
              eff @ [Called k])"
proof -
  from assms have "[k..<4] = k # [Suc k..<4]" by (simp add: upt_from)
  with assms validation_inst show ?thesis by simp
qed

lemma loop_retry:
  assumes "k < 3" and "allow_request bk (now_allow env k) = (Inr (), ba)" and "p k = Inl exc"
    and exc: "exc \<in> {ModelProviderError, ModelRateLimitError, ModelTimeoutError}"
  shows "retry_loop env p [k..<4] bk last_err eff
           = retry_loop env p [Suc k..<4] (record_failure ba (now_fail env k)) (Some exc)
               (eff @ [Called k, Slept (min (2 * 2 ^ (k - 1) + uniform01 env k) 30)])"
proof -
  from assms have "[k..<4] = k # [Suc k..<4]" by (simp add: upt_from)
  with assms retryable_inst [OF exc] show ?thesis
    by (simp add: MAX_RETRIES_def backoff_delay_def BASE_BACKOFF_def MAX_BACKOFF_def)
qed

lemma loop_exhausted:
  assumes "allow_request bk (now_allow env 3) = (Inr (), ba)" and "p 3 = Inl exc"
    and exc: "exc \<in> {ModelProviderError, ModelRateLimitError, ModelTimeoutError}"
  shows "retry_loop env p [3..<4] bk last_err eff
           = (Inl (ModelProviderExhaustedError (Some exc) 3),
              record_failure ba (now_fail env 3), eff @ [Called 3])"
proof -
  have "[3..<4] = [3::nat]" by (simp add: upt_conv_Cons)
  with assms retryable_inst [OF exc] show ?thesis by (simp add: MAX_RETRIES_def)
qed

text \<open>
  Claim C8. \<open>ModelRouter.call\<close> runs the retry loop over the attempts 1, 2, 3 and invokes the
  provider at most three times. At attempt \<open>k\<close>: a \<open>CircuitBreakerOpenError\<close> raised by the
  breaker ends the call at once, with no provider call and no failure recorded; a response
  is returned after \<open>record_success\<close>; \<open>ModelOutputValidationError\<close> records a failure and
  is re-raised without another attempt; \<open>ModelProviderError\<close>, \<open>ModelRateLimitError\<close> and
  \<open>ModelTimeoutError\<close> record a failure and, when \<open>k < 3\<close>, sleep
  \<open>min (2 * 2 ^ (k - 1) + U(0,1)) 30\<close> seconds and go on with attempt \<open>k + 1\<close>, while at
  \<open>k = 3\<close> the call raises \<open>ModelProviderExhaustedError\<close> with \<open>attempts = 3\<close> and the last
  error, without sleeping.
\<close>

theorem router_call_retry:
  assumes "providers r name = Some p" and "breakers r name = Some b"
  shows
   "call r env name =
      (case retry_loop env p [1..<4] b None [] of
         (res, b', eff) \<Rightarrow> (res, r\<lparr>breakers := (breakers r)(name \<mapsto> b')\<rparr>, eff))
    \<and> length (filter is_call (snd (snd (call r env name)))) \<le> 3
    \<and> (k \<le> 3 \<and> allow_request bk (now_allow env k) = (Inl e, ba) \<longrightarrow>
         e = CircuitBreakerOpenError (cb_provider bk) \<and> cb_failures ba = cb_failures bk
         \<and> retry_loop env p [k..<4] bk last_err eff = (Inl e, ba, eff))
    \<and> (k \<le> 3 \<and> allow_request bk (now_allow env k) = (Inr (), ba) \<and> p k = Inr result \<longrightarrow>
         retry_loop env p [k..<4] bk last_err eff
           = (Inr result, record_success ba, eff @ [Called k]))
    \<and> (k \<le> 3 \<and> allow_request bk (now_allow env k) = (Inr (), ba)
        \<and> p k = Inl ModelOutputValidationError \<longrightarrow>
         retry_loop env p [k..<4] bk last_err eff
           = (Inl ModelOutputValidationError, record_failure ba (now_fail env k),
              eff @ [Called k]))
    \<and> (k < 3 \<and> allow_request bk (now_allow env k) = (Inr (), ba) \<and> p k = Inl exc
        \<and> exc \<in> {ModelProviderError, ModelRateLimitError, ModelTimeoutError} \<longrightarrow>
         retry_loop env p [k..<4] bk last_err eff
           = retry_loop env p [Suc k..<4] (record_failure ba (now_fail env k)) (Some exc)
               (eff @ [Called k, Slept (min (2 * 2 ^ (k - 1) + uniform01 env k) 30)]))
    \<and> (allow_request bk (now_allow env 3) = (Inr (), ba) \<and> p 3 = Inl exc
        \<and> exc \<in> {ModelProviderError, ModelRateLimitError, ModelTimeoutError} \<longrightarrow>
         retry_loop env p [3..<4] bk last_err eff
           = (Inl (ModelProviderExhaustedError (Some exc) 3),
              record_failure ba (now_fail env 3), eff @ [Called 3]))"
proof (intro conjI)
  show "call r env name =
      (case retry_loop env p [1..<4] b None [] of
         (res, b', eff) \<Rightarrow> (res, r\<lparr>breakers := (breakers r)(name \<mapsto> b')\<rparr>, eff))"
    by (rule call_unfold [OF assms])
  show "length (filter is_call (snd (snd (call r env name)))) \<le> 3"
    by (rule call_at_most_three [OF assms])
qed (intro impI, elim conjE,
     (rule loop_breaker_open loop_success loop_validation loop_retry loop_exhausted; assumption))+

theorem router_call_retry_witness:
  "providers (mock_router rate_limited) ''mock'' = Some rate_limited
   \<and> breakers (mock_router rate_limited) ''mock'' = Some (default_breaker ''mock'')
   \<and> fst (call (mock_router rate_limited) still_env ''mock'')
       = Inl (ModelProviderExhaustedError (Some ModelRateLimitError) 3)
   \<and> snd (snd (call (mock_router rate_limited) still_env ''mock''))
       = [Called 1, Slept (5 / 2), Called 2, Slept (9 / 2), Called 3]
   \<and> length (filter is_call (snd (snd (call (mock_router rate_limited) still_env ''mock'')))) \<le> 3
   \<and> allow_request (default_breaker ''mock'') (now_allow still_env 1)
       = (Inr (), default_breaker ''mock'')
   \<and> rate_limited 1 = Inl ModelRateLimitError
   \<and> retry_loop still_env rate_limited [1..<4] (default_breaker ''mock'') None []
       = retry_loop still_env rate_limited [2..<4]
           (record_failure (default_breaker ''mock'') (now_fail still_env 1))
           (Some ModelRateLimitError) [Called 1, Slept (5 / 2)]"
  using router_call_retry [where r = "mock_router rate_limited" and name = "''mock''"
          and p = rate_limited and b = "default_breaker ''mock''" and env = still_env
          and k = 1 and bk = "default_breaker ''mock''" and ba = "default_breaker ''mock''"
          and exc = ModelRateLimitError and last_err = None and eff = "[]"]
  by (simp add: mock_router_def rate_limited_def still_env_def call_def MAX_RETRIES_def
        upt_conv_Cons allow_request_def state_def default_breaker_def new_breaker_def
        record_failure_def isinstance_def mro_def superclasses_def RETRYABLE_def
        backoff_delay_def BASE_BACKOFF_def MAX_BACKOFF_def)

text \<open>
  Claim C9, as amended. For a request whose provider name is not registered,
  \<open>ModelRouter.call\<close> raises Python's built-in \<open>ValueError\<close>, before the breaker is
  consulted or any provider is called, and leaves the router as it was.
\<close>

theorem router_unknown_provider:
  "providers r name = None \<Longrightarrow> call r env name = (Inl ValueError, r, [])"
  by (simp add: call_def)

theorem router_unknown_provider_witness:
  "providers (mock_router rate_limited) ''other'' = None
   \<and> call (mock_router rate_limited) still_env ''other''
       = (Inl ValueError, mock_router rate_limited, [])"
  using router_unknown_provider [of "mock_router rate_limited" "''other''" still_env]
  by (simp add: mock_router_def)

text \<open>
  Claim C9, as stated, fails: the exception raised for an unregistered provider is a
  \<open>ValueError\<close>; it is no \<open>UnknownProvider\<close> error and no error of the ARIA hierarchy.
\<close>

theorem router_unknown_provider_counterexample:
  "fst (call (mock_router rate_limited) still_env ''other'') = Inl ValueError
   \<and> class_name ValueError = ''ValueError''
   \<and> \<not> isinstance ValueError [''UnknownProvider'', ''UnknownProviderError'', ''ARIAError'']"
  by (simp add: call_def mock_router_def isinstance_def mro_def superclasses_def)

subsection \<open>Audit chain\<close>


lemma key_event_inj: "(s @ '':event'' = t @ '':event'') = (s = t)"
  by simp














subsection \<open>Tool sandbox\<close>









text \<open>
  Claim C10. Let the arguments pass both validations, and let the child exit 0 and print
  text that parses to a JSON object. If the key \<open>ok\<close> is missing or its value is falsy,
  \<open>run_tool_sandboxed\<close> returns (does not raise) a result with \<open>ok = False\<close>,
  \<open>error_type = ToolExecutionError\<close> and as \<open>error_message\<close> the value of the key
  \<open>error\<close>, or \<open>Unknown\<close> when that key is absent. If \<open>ok\<close> is truthy and \<open>data\<close> is missing
  or null, the data is the empty object, and the call returns it with \<open>ok = True\<close> when the
  empty object satisfies \<open>output_schema\<close> and raises \<open>ToolOutputValidationError\<close> otherwise.
\<close>

theorem sandbox_child_result:
  assumes "validate_input arguments manifest = Inr ()"
    and "validate_paths env arguments manifest = Inr ()"
    and "subprocess_run env \<lparr>sp_tool_module_path = module_path, sp_input = arguments,
            sp_max_memory_mb = tm_max_memory_mb manifest\<rparr> = Completed 0 out err"
    and "strip out \<noteq> []"
    and "json_loads env (strip out) = Some (JObj payload_out)"
  shows "((map_of payload_out ''ok'' = None \<or> (\<exists>v. map_of payload_out ''ok'' = Some v \<and> \<not> truthy v)) \<longrightarrow>
           fst (run_tool_sandboxed env manifest arguments module_path)
             = Inr \<lparr>tr_ok = False, tr_tool_name = tm_name manifest, tr_tool_call_id = '''',
                    tr_data = None, tr_error_type = Some ''ToolExecutionError'',
                    tr_error_message =
                      Some (case map_of payload_out ''error'' of
                              None \<Rightarrow> JStr ''Unknown'' | Some m \<Rightarrow> m),
                    tr_duration_ms = elapsed_ms env\<rparr>)
    \<and> ((\<exists>v. map_of payload_out ''ok'' = Some v \<and> truthy v)
        \<and> map_of payload_out ''data'' \<in> {None, Some JNull} \<longrightarrow>
           fst (run_tool_sandboxed env manifest arguments module_path)
             = (if validate_schema (JObj []) (tm_output_schema manifest) ''output'' = []
                then Inr \<lparr>tr_ok = True, tr_tool_name = tm_name manifest, tr_tool_call_id = '''',
                          tr_data = Some (JObj []), tr_error_type = None,
                          tr_error_message = None, tr_duration_ms = elapsed_ms env\<rparr>
                else Inl ToolOutputValidationError))"
  using assms
  by (auto simp: run_tool_sandboxed_def Let_def dict_get_def validate_output_def
        split: option.splits)




theorem sandbox_child_result_witness:
  "fst (run_tool_sandboxed (child_env (JObj [(''ok'', JBool False)])) read_manifest
          [(''path'', JStr ''/tmp/x'')] ''m'')
     = Inr \<lparr>tr_ok = False, tr_tool_name = ''read_file'', tr_tool_call_id = [],
            tr_data = None, tr_error_type = Some ''ToolExecutionError'',
            tr_error_message = Some (JStr ''Unknown''), tr_duration_ms = 5\<rparr>
   \<and> fst (run_tool_sandboxed (child_env (JObj [(''ok'', JBool True)])) read_manifest
          [(''path'', JStr ''/tmp/x'')] ''m'')
     = Inr \<lparr>tr_ok = True, tr_tool_name = ''read_file'', tr_tool_call_id = [],
            tr_data = Some (JObj []), tr_error_type = None, tr_error_message = None,
            tr_duration_ms = 5\<rparr>"
proof -
  let ?args = "[(''path'', JStr ''/tmp/x'')]"
  have vi: "validate_input ?args read_manifest = Inr ()"
    by (simp add: validate_input_def read_manifest_def)
  have vp: "validate_paths (child_env j) ?args read_manifest = Inr ()" for j
    by (simp add: validate_paths_def read_manifest_def child_env_def check_value_def
          path_like_def under_base_def startswith_def)
  have sp: "subprocess_run (child_env j) \<lparr>sp_tool_module_path = ''m'', sp_input = ?args,
            sp_max_memory_mb = tm_max_memory_mb read_manifest\<rparr> = Completed 0 ''{}'' []" for j
    by (simp add: child_env_def)
  have st: "strip ''{}'' \<noteq> []" by (simp add: strip_def is_space_def)
  have jl: "json_loads (child_env j) (strip ''{}'') = Some j" for j
    by (simp add: child_env_def)
  from sandbox_child_result [OF vi vp sp st jl]
  show ?thesis by (simp add: read_manifest_def child_env_def)
qed

subsection \<open>Agent kernel\<close>

lemma finalise_old_rows:
  "list_all (\<lambda>r. step_number r \<le> n) rows \<Longrightarrow>
   map (\<lambda>r. if step_number r = n + 1
            then r\<lparr>step_completed := True, step_cost_usd := Some c\<rparr> else r) rows = rows"
  by (induction rows) auto

lemma list_all_le_mono:
  "list_all (\<lambda>r. step_number r \<le> n) rows \<Longrightarrow> list_all (\<lambda>r. step_number r \<le> n + 1) rows"
  by (induction rows) auto

lemma model_step_inv:
  assumes "totals_inv n st" "fsm_state (fsm st) = RUNNING"
  shows "case model_step env (n + 1) st of
           (Inr _, st') \<Rightarrow> totals_inv (n + 1) st' \<and> fsm_state (fsm st') \<in> {RUNNING, DONE}
         | (Inl e, st') \<Rightarrow> raised_at (n + 1) e st'"
  using assms
  by (auto simp: raised_at_def model_step_def bind_k_def return_k_def raise_k_def write_step_start_def
        write_step_end_def append_message_def get_conversation_history_def db_read_def
        db_write_def fsm_transition_def transition_def sync_session_def execute_tool_def
        emit_def log_k_def totals_inv_def cost_sum_def Let_def finalise_old_rows list_all_le_mono
      split: sum.splits ActionType.splits prod.splits if_splits option.splits)

declare main_loop.simps [simp del]

lemma history_read_frame:
  "get_conversation_history env st = (r, st1) \<Longrightarrow>
   fsm st1 = fsm st \<and> steps st1 = steps st \<and> total_cost st1 = total_cost st \<and>
   sessions st1 = sessions st \<and> audit_log st1 = audit_log st"
  by (auto simp: get_conversation_history_def db_read_def Let_def split: if_splits)

lemma main_loop_inv:
  "totals_inv n st \<Longrightarrow> fsm_state (fsm st) \<in> {RUNNING, DONE} \<Longrightarrow>
   (case main_loop env n st of
      (Inr _, m, st') \<Rightarrow> totals_inv m st' \<and> fsm_state (fsm st') = DONE
    | (Inl e, m, st') \<Rightarrow> raised_at m e st')"
proof (induction env n st rule: main_loop.induct)
  case (1 env step_count st)
  show ?case
  proof (cases "is_terminal (fsm st)")
    case True
    with 1(3) have "fsm_state (fsm st) = DONE" by (auto simp: is_terminal_def)
    with True 1(2) show ?thesis by (subst main_loop.simps) simp
  next
    case False
    with 1(3) have running: "fsm_state (fsm st) = RUNNING" by (auto simp: is_terminal_def)
    obtain r st1 where read: "get_conversation_history env st = (r, st1)"
      by (cases "get_conversation_history env st")
    note frame = history_read_frame [OF read]
    from frame 1(2) have inv1: "totals_inv step_count st1" by (simp add: totals_inv_def)
    from frame running have run1: "fsm_state (fsm st1) = RUNNING" by simp
    show ?thesis
    proof (cases r)
      case (Inl e)
      with read have "e = MemoryCorruptionError"
        by (auto simp: get_conversation_history_def db_read_def Let_def split: if_splits)
      with Inl False read inv1 run1 show ?thesis
        by (subst main_loop.simps) (simp add: totals_inv_def raised_at_def)
    next
      case (Inr u)
      show ?thesis
      proof (cases "step_count + 1 > max_steps env \<or> total_cost st1 > max_cost_usd env")
        case True
        with False read Inr inv1 run1 show ?thesis
          by (subst main_loop.simps) (auto simp: totals_inv_def raised_at_def)
      next
        case inside: False
        obtain r2 st2 where step: "model_step env (step_count + 1) st1 = (r2, st2)"
          by (cases "model_step env (step_count + 1) st1")
        from model_step_inv [OF inv1 run1, of env] step
        have post: "case r2 of
             Inr _ \<Rightarrow> totals_inv (step_count + 1) st2 \<and> fsm_state (fsm st2) \<in> {RUNNING, DONE}
           | Inl e \<Rightarrow> raised_at (step_count + 1) e st2"
          by (simp split: sum.splits)
        show ?thesis
        proof (cases r2)
          case (Inl e)
          with False read Inr inside step post show ?thesis
            by (subst main_loop.simps) auto
        next
          case inr2: (Inr u2)
          with post have pre: "totals_inv (step_count + 1) st2"
            "fsm_state (fsm st2) \<in> {RUNNING, DONE}" by simp_all
          have ih: "case main_loop env (step_count + 1) st2 of
              (Inr _, m, st') \<Rightarrow> totals_inv m st' \<and> fsm_state (fsm st') = DONE
            | (Inl e, m, st') \<Rightarrow> raised_at m e st'"
          proof -
            from inside have a: "\<not> max_steps env < step_count + 1"
              and b: "\<not> max_cost_usd env < total_cost st1" by auto
            show ?thesis
              by (rule 1(1) [OF False read [symmetric] Inr a b step [symmetric] inr2 pre])
          qed
          from False read Inr inside step inr2 ih show ?thesis
            by (subst main_loop.simps) simp
        qed
      qed
    qed
  qed
qed

lemma startup_inv:
  "startup env (init_state sid) = (Inr u, s0) \<Longrightarrow>
   totals_inv 0 s0 \<and> fsm_state (fsm s0) = RUNNING"
  by (auto simp: startup_def bind_k_def return_k_def create_session_def emit_def
        fsm_transition_def transition_def sync_session_def append_message_def
        get_conversation_history_def db_read_def db_write_def log_k_def init_state_def
        new_fsm_def totals_inv_def cost_sum_def Let_def
      split: if_splits prod.splits sum.splits)

lemma isinstance_audit_write_failure:
  "isinstance AuditWriteFailureError [''AuditWriteFailureError'']"
  by (simp add: isinstance_def mro_def)

lemma classified_inv:
  "fsm_state (fsm st) \<in> {RUNNING, WAITING} \<Longrightarrow>
   (case classified env event e msg st of
      (Inr err, st') \<Rightarrow> fsm_state (fsm st') = FAILED \<and> steps st' = steps st \<and>
                         sessions st' = sessions st \<and> total_cost st' = total_cost st
    | (Inl e', st') \<Rightarrow> isinstance e' [''AuditWriteFailureError''])"
  by (auto simp: isinstance_audit_write_failure classified_def bind_k_def return_k_def emit_def db_write_def log_k_def
        fail_unless_terminal_def is_terminal_def fsm_transition_def transition_def Let_def
      split: if_splits prod.splits sum.splits)

lemma handle_exception_inv:
  assumes "fsm_state (fsm st) \<in> {RUNNING, WAITING}"
  shows "case handle_exception env n e st of
           (Inr err, st') \<Rightarrow> fsm_state (fsm st') = FAILED \<and> steps st' = steps st \<and>
                              sessions st' = sessions st \<and> total_cost st' = total_cost st
         | (Inl e', st') \<Rightarrow> isinstance e' [''AuditWriteFailureError'']"
proof -
  have halt: "isinstance e [''AuditWriteFailureError''] \<Longrightarrow>
      (case bind_k (\<lambda>s. fail_unless_terminal (log_k ''audit_write_failure_halt'' s))
             (\<lambda>_. bind_k (sync_session env n (Some ''AuditWriteFailureError'')
                            (Some audit_halt_msg))
             (\<lambda>_. raise_k e)) st of
         (Inr (err :: string option \<times> string option), st') \<Rightarrow>
            fsm_state (fsm st') = FAILED \<and> steps st' = steps st \<and>
            sessions st' = sessions st \<and> total_cost st' = total_cost st
       | (Inl e', st') \<Rightarrow> isinstance e' [''AuditWriteFailureError''])"
    using assms
    by (auto simp: isinstance_audit_write_failure bind_k_def raise_k_def sync_session_def db_write_def log_k_def
            fail_unless_terminal_def is_terminal_def fsm_transition_def transition_def Let_def
          split: if_splits prod.splits sum.splits)
  show ?thesis
    unfolding handle_exception_def
    using classified_inv [OF assms] halt by simp
qed




lemma teardown_raises:
  "teardown env n err st = (Inl e, st') \<Longrightarrow> e = AuditWriteFailureError"
  by (auto simp: teardown_def bind_k_def return_k_def emit_def sync_session_def db_write_def
        log_k_def Let_def
      split: if_splits prod.splits sum.splits)

lemma startup_raises:
  "startup env (init_state sid) = (Inl e, s0) \<Longrightarrow>
   e = AuditWriteFailureError \<or> e = MemoryCorruptionError"
  by (auto simp: startup_def bind_k_def return_k_def create_session_def emit_def
        fsm_transition_def transition_def sync_session_def append_message_def
        get_conversation_history_def db_read_def db_write_def log_k_def init_state_def
        new_fsm_def Let_def
      split: if_splits prod.splits sum.splits)

lemma started_startup:
  "\<not> injection_hit env \<Longrightarrow> \<forall>k < 6. db_ok env k \<Longrightarrow>
   startup env (init_state sid) = (Inr (), started sid)"
  by (simp add: startup_def bind_k_def return_k_def create_session_def emit_def
        fsm_transition_def transition_def sync_session_def append_message_def
        get_conversation_history_def db_read_def db_write_def log_k_def init_state_def
        new_fsm_def started_def Let_def round6_def round_half_even_def)



lemma main_loop_raise:
  "\<not> is_terminal (fsm st) \<Longrightarrow> get_conversation_history env st = (Inr u, st1)
   \<Longrightarrow> \<not> max_steps env < n + 1 \<Longrightarrow> \<not> max_cost_usd env < total_cost st1
   \<Longrightarrow> model_step env (n + 1) st1 = (Inl e, st2)
   \<Longrightarrow> main_loop env n st = (Inl e, n + 1, st2)"
  by (subst main_loop.simps) simp


lemma started_live: "\<not> is_terminal (fsm (started sid))"
  by (simp add: is_terminal_def started_def)

lemma started_read:
  "ok 6 \<Longrightarrow> get_conversation_history (healthy ok provider limit) (started sid)
     = (Inr (), (started sid)\<lparr>db_ops := 7\<rparr>)"
  by (simp add: get_conversation_history_def db_read_def started_def healthy_def)

lemma round6_examples:
  "round6 0 = 0" "round6 (3 / 1000) = 3 / 1000" "round6 (136 / 10000000) = 14 / 1000000"
  by (simp_all add: round6_def round_half_even_def Let_def)













text \<open>The run of a session in which \<open>AuditWriteFailureError\<close> leaves the main loop.\<close>

lemma halt_run:
  assumes "startup env (init_state session_id) = (Inr (), s0)"
    and "main_loop env 0 s0 = (Inl AuditWriteFailureError, n, s1)"
  shows "fst (run env session_id) = Inl AuditWriteFailureError
    \<and> fsm_state (fsm (snd (run env session_id))) = FAILED
    \<and> audit_log (snd (run env session_id)) = audit_log s1
    \<and> steps (snd (run env session_id)) = steps s1
    \<and> logger (snd (run env session_id))
        = logger s1 @ ''audit_write_failure_halt''
            # (if db_ok env (db_ops s1) then [] else [''session_sync_failed''])
    \<and> sessions (snd (run env session_id))
        = (if db_ok env (db_ops s1)
           then Some \<lparr>sr_status = FAILED, sr_total_steps = n,
                  sr_total_cost_usd = round6 (total_cost s1),
                  sr_error_type = Some ''AuditWriteFailureError'',
                  sr_error_msg = Some audit_halt_msg\<rparr>
           else sessions s1)
    \<and> (int (length (steps s1)) = n \<or> int (length (steps s1)) + 1 = n)"
proof -
  from startup_inv [OF assms(1)]
  have inv0: "totals_inv 0 s0" and run0: "fsm_state (fsm s0) = RUNNING" by blast+
  from main_loop_inv [OF inv0, of env] run0 assms(2)
  have st1: "fsm_state (fsm s1) \<in> {RUNNING, WAITING}" and row: "sessions s1 \<noteq> None"
    and len: "int (length (steps s1)) = n \<or> int (length (steps s1)) + 1 = n"
    by (auto simp: raised_at_def)
  have run: "run env session_id
      = (case handle_exception env n AuditWriteFailureError s1 of
           (Inl e, s) \<Rightarrow> (Inl e, s)
         | (Inr err, s) \<Rightarrow> teardown env n err s)"
    using assms by (simp add: run_def bind_k_def)
  from st1 row len show ?thesis
    unfolding run
    by (auto simp: handle_exception_def isinstance_def mro_def superclasses_def bind_k_def
          raise_k_def sync_session_def db_write_def log_k_def fail_unless_terminal_def
          is_terminal_def fsm_transition_def transition_def Let_def)
qed

lemma unwritable_loop:
  "ok 6 \<Longrightarrow> \<not> ok 7 \<Longrightarrow>
   main_loop (healthy ok (answering c) 5) 0 (started ''s'')
     = (Inl AuditWriteFailureError, 1, (started ''s'')\<lparr>db_ops := 8\<rparr>)"
proof -
  assume ok: "ok 6" "\<not> ok 7"
  let ?env = "healthy ok (answering c) 5"
  let ?s1 = "(started ''s'')\<lparr>db_ops := 7\<rparr>"
  from ok have rd: "get_conversation_history ?env (started ''s'') = (Inr (), ?s1)"
    by (simp add: started_read)
  have lim: "\<not> max_steps ?env < 0 + 1" "\<not> max_cost_usd ?env < total_cost ?s1"
    by (simp_all add: healthy_def started_def)
  from ok have ms: "model_step ?env (0 + 1) ?s1
      = (Inl AuditWriteFailureError, (started ''s'')\<lparr>db_ops := 8\<rparr>)"
    by (simp add: model_step_def bind_k_def write_step_start_def db_write_def started_def
          healthy_def Let_def)
  from main_loop_raise [OF started_live rd lim ms] show ?thesis by simp
qed

text \<open>
  Claim C3 fails at start-up. \<open>run\<close> appends the task to the conversation and reads the
  conversation back before it enters its \<open>try\<close> block. When the writes before them
  succeed and the read of the conversation inside \<open>append_message\<close> fails, \<open>run\<close> raises
  \<open>MemoryCorruptionError\<close> to its caller: it returns no \<open>SessionResult\<close>, and the exception
  is not an \<open>AuditWriteFailureError\<close>.
\<close>

theorem run_raises_memory_corruption:
  assumes "\<not> injection_hit env"
    and "db_ok env 0" and "db_ok env 1" and "db_ok env 2"
    and "\<not> db_ok env 3"
  shows "fst (run env session_id) = Inl MemoryCorruptionError
    \<and> \<not> isinstance MemoryCorruptionError [''AuditWriteFailureError'']"
  using assms
  by (simp add: run_def startup_def bind_k_def return_k_def create_session_def emit_def
        fsm_transition_def transition_def sync_session_def append_message_def
        get_conversation_history_def db_read_def db_write_def log_k_def init_state_def
        new_fsm_def Let_def isinstance_def mro_def superclasses_def eval_nat_numeral)

theorem run_raises_memory_corruption_witness:
  "\<not> injection_hit unreadable \<and> db_ok unreadable 0 \<and> db_ok unreadable 1
   \<and> db_ok unreadable 2 \<and> \<not> db_ok unreadable 3
   \<and> fst (run unreadable ''s'') = Inl MemoryCorruptionError"
  using run_raises_memory_corruption [of unreadable "''s''"]
  by (simp add: unreadable_def healthy_def)

text \<open>
  Besides returning a \<open>SessionResult\<close>, \<open>run\<close> has two outcomes: an
  \<open>AuditWriteFailureError\<close>, and the \<open>MemoryCorruptionError\<close> of a read at start-up.
\<close>

lemma run_raises_only_storage_errors:
  assumes "fst (run env session_id) = Inl e"
  shows "isinstance e [''AuditWriteFailureError''] \<or> e = MemoryCorruptionError"
proof -
  obtain r0 s0 where su: "startup env (init_state session_id) = (r0, s0)"
    by (cases "startup env (init_state session_id)")
  show ?thesis
  proof (cases r0)
    case (Inl e0)
    with su assms have "e = e0" by (simp add: run_def bind_k_def)
    with startup_raises su Inl isinstance_audit_write_failure show ?thesis by blast
  next
    case (Inr u)
    with startup_inv su have inv0: "totals_inv 0 s0" and run0: "fsm_state (fsm s0) = RUNNING"
      by blast+
    obtain r n s1 where ml: "main_loop env 0 s0 = (r, n, s1)"
      by (cases "main_loop env 0 s0")
    from main_loop_inv [OF inv0, of env] run0 ml
    have post: "case r of
        Inr _ \<Rightarrow> totals_inv n s1 \<and> fsm_state (fsm s1) = DONE
      | Inl e \<Rightarrow> raised_at n e s1"
      by (simp split: sum.splits)
    show ?thesis
    proof (cases r)
      case inr: (Inr u2)
      with assms su Inr ml have "fst (teardown env n (None, None) s1) = Inl e"
        by (simp add: run_def bind_k_def)
      with teardown_raises [of env n "(None, None)" s1] isinstance_audit_write_failure
      show ?thesis
        by (cases "teardown env n (None, None) s1") auto
    next
      case (Inl e1)
      with post have st1: "fsm_state (fsm s1) \<in> {RUNNING, WAITING}"
        by (simp add: raised_at_def)
      obtain rh s2 where h: "handle_exception env n e1 s1 = (rh, s2)"
        by (cases "handle_exception env n e1 s1")
      show ?thesis
      proof (cases rh)
        case inl: (Inl e2)
        with assms su Inr ml Inl h have "e = e2" by (simp add: run_def bind_k_def)
        with handle_exception_inv [OF st1, of env n e1] h inl show ?thesis by simp
      next
        case (Inr err)
        with assms su \<open>r0 = Inr u\<close> ml Inl h have "fst (teardown env n err s2) = Inl e"
          by (simp add: run_def bind_k_def)
        with teardown_raises [of env n err s2] isinstance_audit_write_failure
        show ?thesis
          by (cases "teardown env n err s2") auto
      qed
    qed
  qed
qed

text \<open>
  Claim C4, as amended. When \<open>AuditWriteFailureError\<close> leaves the main loop, \<open>run\<close> writes
  \<open>audit_write_failure_halt\<close> to the logger and no audit event, moves the FSM to \<open>FAILED\<close>,
  and updates the session row with status \<open>FAILED\<close>, the step count, the rounded cost and
  the error type \<open>AuditWriteFailureError\<close>; when that update fails too, it logs
  \<open>session_sync_failed\<close> and the row stays as it was. In both cases \<open>run\<close> raises
  \<open>AuditWriteFailureError\<close> to its caller.
\<close>

theorem audit_write_failure_halt:
  assumes "startup env (init_state session_id) = (Inr (), s0)"
    and "main_loop env 0 s0 = (Inl AuditWriteFailureError, n, s1)"
  shows "fst (run env session_id) = Inl AuditWriteFailureError
    \<and> fsm_state (fsm (snd (run env session_id))) = FAILED
    \<and> audit_log (snd (run env session_id)) = audit_log s1
    \<and> logger (snd (run env session_id))
        = logger s1 @ ''audit_write_failure_halt''
            # (if db_ok env (db_ops s1) then [] else [''session_sync_failed''])
    \<and> sessions (snd (run env session_id))
        = (if db_ok env (db_ops s1)
           then Some \<lparr>sr_status = FAILED, sr_total_steps = n,
                  sr_total_cost_usd = round6 (total_cost s1),
                  sr_error_type = Some ''AuditWriteFailureError'',
                  sr_error_msg = Some audit_halt_msg\<rparr>
           else sessions s1)"
  using halt_run [OF assms] by simp

theorem audit_write_failure_halt_witness:
  "startup unwritable (init_state ''s'') = (Inr (), started ''s'')
   \<and> main_loop unwritable 0 (started ''s'')
       = (Inl AuditWriteFailureError, 1, (started ''s'')\<lparr>db_ops := 8\<rparr>)
   \<and> fst (run unwritable ''s'') = Inl AuditWriteFailureError
   \<and> fsm_state (fsm (snd (run unwritable ''s''))) = FAILED
   \<and> logger (snd (run unwritable ''s'')) = [''audit_write_failure_halt'']
   \<and> sessions (snd (run unwritable ''s''))
       = Some \<lparr>sr_status = FAILED, sr_total_steps = 1, sr_total_cost_usd = 0,
            sr_error_type = Some ''AuditWriteFailureError'',
            sr_error_msg = Some audit_halt_msg\<rparr>"
proof -
  have su: "startup unwritable (init_state ''s'') = (Inr (), started ''s'')"
    by (rule started_startup) (simp_all add: unwritable_def healthy_def)
  have ml: "main_loop unwritable 0 (started ''s'')
       = (Inl AuditWriteFailureError, 1, (started ''s'')\<lparr>db_ops := 8\<rparr>)"
    unfolding unwritable_def by (rule unwritable_loop) simp_all
  have ok: "db_ok unwritable (db_ops ((started ''s'')\<lparr>db_ops := 8\<rparr>))"
    by (simp add: unwritable_def healthy_def)
  from audit_write_failure_halt [OF su ml] su ml ok show ?thesis
    by (simp add: started_def round6_examples)
qed

text \<open>
  Claim C4, as stated, fails. In the session whose first \<open>write_step_start\<close> fails, the
  audit events of the session are \<open>session_start\<close> alone: \<open>audit_write_failure_halt\<close> is a
  record of the logger, not an audit event. And when the database accepts nothing from
  that write on, the session row is not synced: it keeps the status \<open>RUNNING\<close> that the
  sync of start-up wrote.
\<close>

theorem audit_write_failure_halt_counterexample:
  "main_loop unwritable 0 (started ''s'')
     = (Inl AuditWriteFailureError, 1, (started ''s'')\<lparr>db_ops := 8\<rparr>)
   \<and> fst (run unwritable ''s'') = Inl AuditWriteFailureError
   \<and> audit_log (snd (run unwritable ''s'')) = [''session_start'']
   \<and> ''audit_write_failure_halt'' \<notin> set (audit_log (snd (run unwritable ''s'')))
   \<and> main_loop unwritable_since 0 (started ''s'')
     = (Inl AuditWriteFailureError, 1, (started ''s'')\<lparr>db_ops := 8\<rparr>)
   \<and> fst (run unwritable_since ''s'') = Inl AuditWriteFailureError
   \<and> sessions (snd (run unwritable_since ''s''))
       = Some \<lparr>sr_status = RUNNING, sr_total_steps = 0, sr_total_cost_usd = 0,
            sr_error_type = None, sr_error_msg = None\<rparr>
   \<and> logger (snd (run unwritable_since ''s''))
       = [''audit_write_failure_halt'', ''session_sync_failed'']"
proof -
  let ?s1 = "(started ''s'')\<lparr>db_ops := 8\<rparr>"
  have su: "startup unwritable (init_state ''s'') = (Inr (), started ''s'')"
    by (rule started_startup) (simp_all add: unwritable_def healthy_def)
  have ml: "main_loop unwritable 0 (started ''s'') = (Inl AuditWriteFailureError, 1, ?s1)"
    unfolding unwritable_def by (rule unwritable_loop) simp_all
  have "run unwritable ''s''
      = (case handle_exception unwritable 1 AuditWriteFailureError ?s1 of
           (Inl e, s) \<Rightarrow> (Inl e, s)
         | (Inr err, s) \<Rightarrow> teardown unwritable 1 err s)"
    by (simp add: run_def bind_k_def su ml)
  then have a: "fst (run unwritable ''s'') = Inl AuditWriteFailureError
      \<and> audit_log (snd (run unwritable ''s'')) = [''session_start'']"
    by (simp add: handle_exception_def isinstance_def mro_def
          superclasses_def bind_k_def raise_k_def sync_session_def db_write_def log_k_def
          fail_unless_terminal_def is_terminal_def fsm_transition_def transition_def Let_def
          started_def unwritable_def healthy_def)
  have su2: "startup unwritable_since (init_state ''s'') = (Inr (), started ''s'')"
    by (rule started_startup) (simp_all add: unwritable_since_def healthy_def)
  have ml2: "main_loop unwritable_since 0 (started ''s'')
      = (Inl AuditWriteFailureError, 1, ?s1)"
    unfolding unwritable_since_def by (rule unwritable_loop) simp_all
  have "run unwritable_since ''s''
      = (case handle_exception unwritable_since 1 AuditWriteFailureError ?s1 of
           (Inl e, s) \<Rightarrow> (Inl e, s)
         | (Inr err, s) \<Rightarrow> teardown unwritable_since 1 err s)"
    by (simp add: run_def bind_k_def su2 ml2)
  then have b: "fst (run unwritable_since ''s'') = Inl AuditWriteFailureError
      \<and> sessions (snd (run unwritable_since ''s''))
          = Some \<lparr>sr_status = RUNNING, sr_total_steps = 0, sr_total_cost_usd = 0,
               sr_error_type = None, sr_error_msg = None\<rparr>
      \<and> logger (snd (run unwritable_since ''s''))
          = [''audit_write_failure_halt'', ''session_sync_failed'']"
    by (simp add: handle_exception_def isinstance_def mro_def
          superclasses_def bind_k_def raise_k_def sync_session_def db_write_def log_k_def
          fail_unless_terminal_def is_terminal_def fsm_transition_def transition_def Let_def
          started_def unwritable_since_def healthy_def)
  from a b ml ml2 show ?thesis by auto
qed




end
